theory Spec2Isabelle
  imports Complex_Main "HOL-Library.Sublist" "HOL-Library.Word"
begin

unbundle bit_operations_syntax

section \<open>Strings, numbers and failures of the JavaScript runtime\<close>

text \<open>
  Strings are modelled as \<^typ>\<open>string\<close>, one \<^typ>\<open>char\<close> per code unit. The printer
  stream is sent through the latin1 codec, which keeps the low byte of every code unit, so
  a \<^typ>\<open>char\<close> is the byte that reaches the printer.
\<close>

abbreviation newline :: char where
  "newline \<equiv> CHR 0x0A"

abbreviation space :: char where
  "space \<equiv> CHR 0x20"

text \<open>
  A call either returns a value, raises, or never returns. \<open>None\<close> stands for a call
  that never returns, \<open>Some (Inl e)\<close> for a raised exception.
\<close>

datatype error = RangeError | TypeError | SyntaxError | PrintError

type_synonym 'a outcome = "(error + 'a) option"

definition returns :: "'a \<Rightarrow> 'a outcome" where
  "returns x = Some (Inr x)"

definition of_sum :: "error + 'a \<Rightarrow> 'a outcome" where
  "of_sum r = Some r"

definition of_option :: "'a option \<Rightarrow> 'a outcome" where
  "of_option r = map_option Inr r"

text \<open>A call returns normally when it neither raises nor runs forever.\<close>

definition returns_normally :: "'a outcome \<Rightarrow> bool" where
  "returns_normally r = (case r of Some (Inr x) \<Rightarrow> True | _ \<Rightarrow> False)"

text \<open>\<open>x + "\n"\<close> for a computed string \<open>x\<close>.\<close>

definition line_of :: "string outcome \<Rightarrow> string outcome" where
  "line_of r = map_option (map_sum id (\<lambda>s. s @ [newline])) r"

text \<open>
  A run of \<^verbatim>\<open>commands += ...\<close> statements: the pieces are computed in order and
  appended; the first piece that raises or does not return ends the run.
\<close>

fun sequence :: "string outcome list \<Rightarrow> string outcome" where
  "sequence [] = Some (Inr [])"
| "sequence (None # rs) = None"
| "sequence (Some (Inl e) # rs) = Some (Inl e)"
| "sequence (Some (Inr s) # rs) =
     (case sequence rs of
        None \<Rightarrow> None
      | Some (Inl e) \<Rightarrow> Some (Inl e)
      | Some (Inr t) \<Rightarrow> Some (Inr (s @ t)))"

text \<open>\<^verbatim>\<open>xs.map(f)\<close> for a callback that may raise: the first exception ends the map.\<close>

fun traverse :: "('a \<Rightarrow> error + 'b) \<Rightarrow> 'a list \<Rightarrow> error + 'b list" where
  "traverse f [] = Inr []"
| "traverse f (x # xs) =
     (case f x of
        Inl e \<Rightarrow> Inl e
      | Inr y \<Rightarrow> (case traverse f xs of Inl e \<Rightarrow> Inl e | Inr ys \<Rightarrow> Inr (y # ys)))"

text \<open>
  \<^verbatim>\<open>s.substring(a, b)\<close>: both indices are clamped into \<open>[0, s.length]\<close> and swapped
  when the first is the larger one. \<^verbatim>\<open>s.substring(a)\<close> runs to the end of the string.
\<close>

definition substring :: "string \<Rightarrow> int \<Rightarrow> int \<Rightarrow> string" where
  "substring s a b =
     (let n = int (length s);
          a' = min (max a 0) n;
          b' = min (max b 0) n;
          lo = min a' b';
          hi = max a' b'
      in take (nat (hi - lo)) (drop (nat lo) s))"

definition substring_from :: "string \<Rightarrow> int \<Rightarrow> string" where
  "substring_from s a = substring s a (int (length s))"

text \<open>
  \<^verbatim>\<open>s.split(sep)\<close> for a separator of one character: the pieces between the
  separators, in order; the empty string gives one empty piece.
\<close>

fun split_on :: "char \<Rightarrow> string \<Rightarrow> string list" where
  "split_on sep [] = [[]]"
| "split_on sep (c # cs) =
     (if c = sep then [] # split_on sep cs
      else (case split_on sep cs of
              [] \<Rightarrow> [[c]]
            | l # ls \<Rightarrow> (c # l) # ls))"

text \<open>\<^verbatim>\<open>xs.join(sep)\<close>.\<close>

fun join :: "string \<Rightarrow> string list \<Rightarrow> string" where
  "join sep [] = []"
| "join sep [x] = x"
| "join sep (x # y # ys) = x @ sep @ join sep (y # ys)"

text \<open>
  A value of the type \<^verbatim>\<open>number\<close> that is used as a width or a count: a finite
  number, an infinity or NaN. Finite numbers are reals and their arithmetic is exact;
  the theorems are about whole numbers below \<open>2 ^ 53\<close>, where the arithmetic of doubles
  is exact too, and the other widths used below (\<open>0.5\<close>, \<open>2.5\<close>, \<open>2 ^ 100\<close>) are
  doubles as well.
\<close>

datatype number = Finite real | PosInfinity | NegInfinity | NaN

definition whole :: "int \<Rightarrow> number" where
  "whole i = Finite (of_int i)"

text \<open>\<open>n > x\<close> for a length \<open>n\<close>, \<open>x <= 0\<close>, \<open>x - n\<close>, \<open>Math.floor(x / 2)\<close>, and the
  numbers that \<open>x || d\<close> replaces: every comparison with NaN fails.\<close>

fun length_exceeds :: "nat \<Rightarrow> number \<Rightarrow> bool" where
  "length_exceeds n (Finite r) = (real n > r)"
| "length_exceeds n PosInfinity = False"
| "length_exceeds n NegInfinity = True"
| "length_exceeds n NaN = False"

fun not_positive :: "number \<Rightarrow> bool" where
  "not_positive (Finite r) = (r \<le> 0)"
| "not_positive PosInfinity = False"
| "not_positive NegInfinity = True"
| "not_positive NaN = False"

fun minus_length :: "number \<Rightarrow> nat \<Rightarrow> number" where
  "minus_length (Finite r) n = Finite (r - real n)"
| "minus_length PosInfinity n = PosInfinity"
| "minus_length NegInfinity n = NegInfinity"
| "minus_length NaN n = NaN"

fun floor_half :: "number \<Rightarrow> number" where
  "floor_half (Finite r) = Finite (of_int \<lfloor>r / 2\<rfloor>)"
| "floor_half PosInfinity = PosInfinity"
| "floor_half NegInfinity = NegInfinity"
| "floor_half NaN = NaN"

fun falsy_number :: "number \<Rightarrow> bool" where
  "falsy_number (Finite r) = (r = 0)"
| "falsy_number PosInfinity = False"
| "falsy_number NegInfinity = False"
| "falsy_number NaN = True"

text \<open>
  \<open>ToIntegerOrInfinity\<close>, which the string functions apply to their numeric arguments:
  NaN becomes 0 and a finite number is truncated towards zero.
\<close>

datatype integer_or_infinity = Integer int | PlusInfinity | MinusInfinity

definition truncate_towards_zero :: "real \<Rightarrow> int" where
  "truncate_towards_zero r = (if r < 0 then \<lceil>r\<rceil> else \<lfloor>r\<rfloor>)"

fun ToIntegerOrInfinity :: "number \<Rightarrow> integer_or_infinity" where
  "ToIntegerOrInfinity (Finite r) = Integer (truncate_towards_zero r)"
| "ToIntegerOrInfinity PosInfinity = PlusInfinity"
| "ToIntegerOrInfinity NegInfinity = MinusInfinity"
| "ToIntegerOrInfinity NaN = Integer 0"

text \<open>
  The longest string an engine builds. The language allows up to \<open>2 ^ 53 - 1\<close> code
  units and the engines stop earlier; the model takes \<open>2 ^ 28 - 16\<close>, the smallest
  bound among the common engines, so that what is proved below it holds on each of them.
  The bound is checked where the program hands a count to the runtime, in
  \<^verbatim>\<open>repeat\<close> and \<^verbatim>\<open>padEnd\<close>; strings built by concatenation are lists of any
  length.
\<close>

definition maxStringLength :: int where
  "maxStringLength = 2 ^ 28 - 16"

text \<open>
  \<^verbatim>\<open>s.repeat(count)\<close> raises a RangeError for a negative count, for an infinite count
  and for a result longer than the longest string.
\<close>

definition repeat :: "string \<Rightarrow> number \<Rightarrow> error + string" where
  "repeat s count =
     (case ToIntegerOrInfinity count of
        Integer n \<Rightarrow>
          if n < 0 then Inl RangeError
          else if int (length s) * n > maxStringLength then Inl RangeError
          else Inr (concat (replicate (nat n) s))
      | PlusInfinity \<Rightarrow> Inl RangeError
      | MinusInfinity \<Rightarrow> Inl RangeError)"

text \<open>
  \<^verbatim>\<open>s.padEnd(n)\<close> appends spaces up to length \<open>n\<close> and leaves a string of that
  length or more as it is. \<open>padEnd\<close> is the function on a whole target length, without
  the bound of the longest string; \<open>padEnd_num\<close> is the function on every number, which
  raises a RangeError when the padded string would be longer than the longest string.
\<close>

definition padEnd :: "string \<Rightarrow> int \<Rightarrow> string" where
  "padEnd s n = s @ replicate (nat (n - int (length s))) space"

definition padEnd_num :: "string \<Rightarrow> number \<Rightarrow> error + string" where
  "padEnd_num s n =
     (case ToIntegerOrInfinity n of
        Integer i \<Rightarrow>
          if i \<le> int (length s) then Inr s
          else if i > maxStringLength then Inl RangeError
          else Inr (s @ replicate (nat i - length s) space)
      | PlusInfinity \<Rightarrow> Inl RangeError
      | MinusInfinity \<Rightarrow> Inr s)"

text \<open>
  \<^verbatim>\<open>s.substring(a, b)\<close> and \<^verbatim>\<open>s.substring(a)\<close> on every number: the arguments go
  through \<open>ToIntegerOrInfinity\<close> and are clamped into \<open>[0, s.length]\<close>.
\<close>

fun clamp_index :: "integer_or_infinity \<Rightarrow> nat \<Rightarrow> nat" where
  "clamp_index (Integer i) n = nat (min (max i 0) (int n))"
| "clamp_index PlusInfinity n = n"
| "clamp_index MinusInfinity n = 0"

definition substring_num :: "string \<Rightarrow> number \<Rightarrow> number \<Rightarrow> string" where
  "substring_num s a b =
     (let n = length s;
          a' = clamp_index (ToIntegerOrInfinity a) n;
          b' = clamp_index (ToIntegerOrInfinity b) n;
          lo = min a' b';
          hi = max a' b'
      in take (hi - lo) (drop lo s))"

definition substring_from_num :: "string \<Rightarrow> number \<Rightarrow> string" where
  "substring_from_num s a = substring_num s a (Finite (real (length s)))"

text \<open>
  \<^verbatim>\<open>String.fromCharCode(n)\<close>, as the byte that the latin1 codec makes of it: the
  low eight bits of \<open>n\<close>.
\<close>

definition fromCharCode :: "int \<Rightarrow> char" where
  "fromCharCode n = char_of n"

text \<open>
  The bitwise operators work on the 32-bit two's complement image of their operands;
  \<^verbatim>\<open>>>\<close> is the arithmetic shift, its count taken modulo 32.
\<close>

definition ToInt32 :: "int \<Rightarrow> 32 word" where
  "ToInt32 n = word_of_int n"

definition bit_and :: "int \<Rightarrow> int \<Rightarrow> int" where
  "bit_and a b = sint (ToInt32 a AND ToInt32 b)"

definition shift_right :: "int \<Rightarrow> int \<Rightarrow> int" where
  "shift_right a k = sint (signed_drop_bit (nat (k mod 32)) (ToInt32 a))"

text \<open>
  Numbers are IEEE doubles in the source. The renderer only subtracts them, tests them
  and turns them into text, so the model takes these primitives of the runtime as a
  parameter and is generic in the type of numbers.
\<close>

record 'n number_ops =
  num_toString :: "'n \<Rightarrow> string"
  num_toFixed2 :: "'n \<Rightarrow> string"
  num_sub :: "'n \<Rightarrow> 'n \<Rightarrow> 'n"
  num_zero :: 'n
  num_truthy :: "'n \<Rightarrow> bool"

text \<open>
  The primitives on the integers, where a double is exact (below \<open>2 ^ 53\<close> in absolute
  value): decimal notation, and two zero decimals for \<^verbatim>\<open>toFixed(2)\<close>.
\<close>

definition digit :: "nat \<Rightarrow> char" where
  "digit d = char_of (48 + d)"

fun show_nat :: "nat \<Rightarrow> string" where
  "show_nat n = (if n < 10 then [digit n] else show_nat (n div 10) @ [digit (n mod 10)])"

definition show_int :: "int \<Rightarrow> string" where
  "show_int i = (if i < 0 then CHR ''-'' # show_nat (nat (- i)) else show_nat (nat i))"

definition int_ops :: "int number_ops" where
  "int_ops = \<lparr> num_toString = show_int,
               num_toFixed2 = (\<lambda>i. show_int i @ ''.00''),
               num_sub = (\<lambda>a b. a - b),
               num_zero = 0,
               num_truthy = (\<lambda>i. i \<noteq> 0) \<rparr>"

section \<open>Command codec (\<^verbatim>\<open>escpos-commands.ts\<close>)\<close>

definition setTextSize :: "int \<Rightarrow> string" where
  "setTextSize level =
     (if level = 1 then [CHR 0x1D, CHR 0x21, CHR 0x11]
      else if level = 2 then [CHR 0x1D, CHR 0x21, CHR 0x22]
      else [CHR 0x1D, CHR 0x21, CHR 0x00])"

text \<open>
  \<^verbatim>\<open>printQRCode(data, moduleSize = 4)\<close>. The constants of the source keep their names;
  an absent \<open>moduleSize\<close> is \<open>None\<close>, and the clamped \<open>size\<close> is \<open>sz\<close>.
\<close>

definition modelCommand :: string where
  "modelCommand = [CHR 0x1D, CHR 0x28, CHR 0x6B, CHR 0x04, CHR 0x00, CHR 0x31, CHR 0x41, CHR 0x32, CHR 0x00]"

definition sizeCommand :: "int \<Rightarrow> string" where
  "sizeCommand sz = [CHR 0x1D, CHR 0x28, CHR 0x6B, CHR 0x03, CHR 0x00, CHR 0x31, CHR 0x43] @ [fromCharCode sz]"

definition errorCommand :: string where
  "errorCommand = [CHR 0x1D, CHR 0x28, CHR 0x6B, CHR 0x03, CHR 0x00, CHR 0x31, CHR 0x45] @ [fromCharCode 51]"

definition storeCommand :: "string \<Rightarrow> string" where
  "storeCommand data =
     (let storeLen = int (length data) + 3;
          pL = fromCharCode (bit_and storeLen 0xff);
          pH = fromCharCode (bit_and (shift_right storeLen 8) 0xff)
      in [CHR 0x1D, CHR 0x28, CHR 0x6B] @ [pL] @ [pH] @ [CHR 0x31, CHR 0x50, CHR 0x30] @ data)"

definition printCommand :: string where
  "printCommand = [CHR 0x1D, CHR 0x28, CHR 0x6B, CHR 0x03, CHR 0x00, CHR 0x31, CHR 0x51, CHR 0x30]"

definition centerOn :: string where
  "centerOn = [CHR 0x1B] @ ''a'' @ [fromCharCode 1]"

definition centerOff :: string where
  "centerOff = [CHR 0x1B] @ ''a'' @ [fromCharCode 0]"

definition printQRCode :: "string \<Rightarrow> int option \<Rightarrow> string" where
  "printQRCode data moduleSize =
     (let m = (case moduleSize of None \<Rightarrow> 4 | Some v \<Rightarrow> v);
          sz = max 1 (min m 8)
      in centerOn @ modelCommand @ sizeCommand sz @ errorCommand
         @ storeCommand data @ printCommand @ centerOff)"

definition addBreaks :: "int \<Rightarrow> string" where
  "addBreaks n = [CHR 0x1B] @ ''d'' @ [fromCharCode n]"

definition centerText :: string where
  "centerText = [CHR 0x1B, CHR 0x61, CHR 0x01]"

definition boldText :: string where
  "boldText = [CHR 0x1B, CHR 0x45, CHR 0x01]"

definition rightAlignText :: string where
  "rightAlignText = [CHR 0x1B, CHR 0x61, CHR 0x02]"

definition reset :: string where
  "reset = [CHR 0x1B, CHR 0x40]"


text \<open>
  \<^verbatim>\<open>
  export function leftRightText(left: string, right: string, totalWidth: number = 48): string {
    const leftLength = left.length;
    const rightLength = right.length;
    const spacesCount = totalWidth - leftLength - rightLength;
    const spaces = spacesCount > 0 ? " ".repeat(spacesCount) : "";
    return left + spaces + right;
  }
  \<close>
\<close>

definition leftRightText :: "string \<Rightarrow> string \<Rightarrow> int option \<Rightarrow> error + string" where
  "leftRightText left right totalWidth =
     (let leftLength = int (length left);
          rightLength = int (length right);
          spacesCount = (case totalWidth of None \<Rightarrow> 48 | Some w \<Rightarrow> w) - leftLength - rightLength
      in case (if spacesCount > 0 then repeat [space] (whole spacesCount) else Inr []) of
           Inl e \<Rightarrow> Inl e
         | Inr spaces \<Rightarrow> Inr (left @ spaces @ right))"

section \<open>Text layout (the width-aware formatter)\<close>

text \<open>
  \<^verbatim>\<open>
  function wrapText(text: string, width: number): string {
    let result = "";
    while (text.length > width) {
      result += text.substring(0, width) + "\n";
      text = text.substring(width);
    }
    result += text;
    return result;
  }
  \<close>
  The loop does not end when \<open>width \<le> 0\<close> and the text is longer than \<open>width\<close>: the
  model is \<open>None\<close> there. \<open>wrapText\<close> is the function on whole widths, a number of
  columns; \<open>wrapText_num\<close> below is the same function on every number.
\<close>

partial_function (option) wrapText_loop :: "string \<Rightarrow> string \<Rightarrow> int \<Rightarrow> string option" where
  "wrapText_loop result text width =
     (if int (length text) > width
      then wrapText_loop (result @ substring text 0 width @ [newline]) (substring_from text width) width
      else Some (result @ text))"

declare wrapText_loop.simps [code]

definition wrapText :: "string \<Rightarrow> int \<Rightarrow> string option" where
  "wrapText text width = wrapText_loop [] text width"

text \<open>
  \<^verbatim>\<open>
  function leftRightTextWrapped(left: string, right: string, totalWidth: number): string {
    const rightLen = right.length;
    const leftWidth = totalWidth - rightLen;
    if (leftWidth <= 0) return left + right;
    const wrappedLeft = wrapText(left, leftWidth);
    const leftLines = wrappedLeft.split("\n");
    let result = "";
    leftLines.forEach((line, index) => {
      if (index === 0) {
        result += line.padEnd(leftWidth) + right;
      } else {
        result += "\n" + line;
      }
    });
    return result;
  }
  \<close>
\<close>

definition leftRightTextWrapped :: "string \<Rightarrow> string \<Rightarrow> int \<Rightarrow> string option" where
  "leftRightTextWrapped left right totalWidth =
     (let rightLen = int (length right);
          leftWidth = totalWidth - rightLen
      in if leftWidth \<le> 0 then Some (left @ right)
         else case wrapText left leftWidth of
                None \<Rightarrow> None
              | Some wrappedLeft \<Rightarrow>
                  (let leftLines = split_on newline wrappedLeft
                   in Some (foldl (\<lambda>result (index, line).
                                     if index = 0 then result @ padEnd line leftWidth @ right
                                     else result @ [newline] @ line)
                                  [] (enumerate 0 leftLines))))"



section \<open>Text layout on every number\<close>

text \<open>
  The width reaches the formatter as a \<^verbatim>\<open>number\<close> that no path of the program
  checks: it can be a fraction, negative, an infinity or NaN. The functions of this
  section are the layout functions on such a width, each written from the same source
  lines as its counterpart on whole widths, and equal to it on a whole width from 1 up
  to the longest string (lemmas \<open>wrapText_num_whole\<close>,
  \<open>leftRightTextWrapped_num_whole\<close> and \<open>formatLine_num_whole\<close>). With a width between
  0 and 1 the loop of \<^verbatim>\<open>wrapText\<close> takes \<^verbatim>\<open>text.substring(0)\<close>, the whole
  text, for the rest and never ends.
\<close>

partial_function (option) wrapText_num_loop :: "string \<Rightarrow> string \<Rightarrow> number \<Rightarrow> string option" where
  "wrapText_num_loop result text width =
     (if length_exceeds (length text) width
      then wrapText_num_loop (result @ substring_num text (Finite 0) width @ [newline])
             (substring_from_num text width) width
      else Some (result @ text))"

declare wrapText_num_loop.simps [code]

definition wrapText_num :: "string \<Rightarrow> number \<Rightarrow> string option" where
  "wrapText_num text width = wrapText_num_loop [] text width"

text \<open>
  \<^verbatim>\<open>
  function centerWrap(text: string, width: number): string {
    const lines = wrapText(text, width).split("\n");
    return lines
      .map(line => {
        const pad = Math.floor((width - line.length) / 2);
        return " ".repeat(pad) + line;
      })
      .join("\n");
  }
  \<close>
\<close>

definition centerLine :: "number \<Rightarrow> string \<Rightarrow> error + string" where
  "centerLine width line =
     (let pad = floor_half (minus_length width (length line))
      in case repeat [space] pad of Inl e \<Rightarrow> Inl e | Inr p \<Rightarrow> Inr (p @ line))"

definition centerWrap :: "string \<Rightarrow> number \<Rightarrow> string outcome" where
  "centerWrap text width =
     (case wrapText_num text width of
        None \<Rightarrow> None
      | Some wrapped \<Rightarrow>
          (let lines = split_on newline wrapped
           in case traverse (centerLine width) lines of
                Inl e \<Rightarrow> Some (Inl e)
              | Inr padded \<Rightarrow> Some (Inr (join [newline] padded))))"

text \<open>
  \<^verbatim>\<open>leftRightTextWrapped\<close> on every number. An exception of \<^verbatim>\<open>padEnd\<close> in the
  callback of \<^verbatim>\<open>forEach\<close> ends the loop and the call.
\<close>

definition leftRightTextWrapped_num :: "string \<Rightarrow> string \<Rightarrow> number \<Rightarrow> string outcome" where
  "leftRightTextWrapped_num left right totalWidth =
     (let rightLen = length right;
          leftWidth = minus_length totalWidth rightLen
      in if not_positive leftWidth then returns (left @ right)
         else case wrapText_num left leftWidth of
                None \<Rightarrow> None
              | Some wrappedLeft \<Rightarrow>
                  (let leftLines = split_on newline wrappedLeft
                   in Some (foldl (\<lambda>result (index, line).
                                     case result of
                                       Inl e \<Rightarrow> Inl e
                                     | Inr r \<Rightarrow>
                                         if index = 0
                                         then (case padEnd_num line leftWidth of
                                                 Inl e \<Rightarrow> Inl e
                                               | Inr padded \<Rightarrow> Inr (r @ padded @ right))
                                         else Inr (r @ [newline] @ line))
                                  (Inr []) (enumerate 0 leftLines))))"

text \<open>
  \<^verbatim>\<open>
  function dottedLineLocal(width: number): string {
    return ".".repeat(width) + "\n";
  }
  \<close>
\<close>

definition dottedLineLocal :: "number \<Rightarrow> error + string" where
  "dottedLineLocal width =
     (case repeat ''.'' width of Inl e \<Rightarrow> Inl e | Inr dots \<Rightarrow> Inr (dots @ [newline]))"
section \<open>The invoice document\<close>

text \<open>
  The \<^verbatim>\<open>Invoice\<close> interface: every field is optional, an absent field
  (\<^verbatim>\<open>undefined\<close> or \<^verbatim>\<open>null\<close>) is \<open>None\<close>. The record has the fields of the
  width-aware formatter's interface, which extends the one of the earlier formatter,
  and \<open>printerWidth\<close>, which \<^verbatim>\<open>App.tsx\<close> adds
  (\<^verbatim>\<open>interface Invoice extends BaseInvoice { printerWidth?: number; }\<close>).
  \<open>qrSize\<close> is an integer. The invoice is the parsed body of a request, so an entry of
  \<open>lines\<close> or \<open>vat\<close> can be \<^verbatim>\<open>null\<close>: that entry is \<open>None\<close>.
\<close>

record 'n line_item =
  productName :: "string option"
  quantity :: "'n option"
  price :: "'n option"
  fullPrice :: "'n option"
  discountAmount :: "'n option"
  uom :: "string option"

record 'n vat_item =
  vatType :: "string option"
  amount :: "'n option"

record 'n invoice =
  header :: "string option"
  invoiceType :: "string option"
  invNumber :: "('n + string) option"
  tin :: "string option"
  address :: "string option"
  fiscString :: "string option"
  opCode :: "string option"
  buCode :: "string option"
  Date :: "string option"
  FiscDateRange :: "string option"
  TaxPointDate :: "string option"
  lines :: "'n line_item option list option"
  totalPriceNoVat :: "'n option"
  vat :: "'n vat_item option list option"
  totalDiscount :: "'n option"
  totalPrice :: "'n option"
  Exrate :: "'n option"
  CustomerName :: "string option"
  CustomerTin :: "string option"
  CustomerContact :: "string option"
  CustomerAddress :: "string option"
  qrCode :: "string option"
  qrSize :: "int option"
  IIC :: "string option"
  FIC :: "string option"
  EIC :: "string option"
  Footer :: "string option"
  printerWidth :: "number option"


text \<open>
  What a caller can pass for the \<open>invoice\<close> argument at run time: the types are erased,
  so any value of the language.
\<close>

datatype 'n js_value =
    Undefined
  | Null
  | Boolean bool
  | Number 'n
  | String string
  | Object "'n invoice"

fun typeof :: "'n js_value \<Rightarrow> string" where
  "typeof Undefined = ''undefined''"
| "typeof Null = ''object''"
| "typeof (Boolean b) = ''boolean''"
| "typeof (Number n) = ''number''"
| "typeof (String s) = ''string''"
| "typeof (Object doc) = ''object''"

fun truthy :: "'n number_ops \<Rightarrow> 'n js_value \<Rightarrow> bool" where
  "truthy ops Undefined = False"
| "truthy ops Null = False"
| "truthy ops (Boolean b) = b"
| "truthy ops (Number n) = num_truthy ops n"
| "truthy ops (String s) = (s \<noteq> [])"
| "truthy ops (Object doc) = True"


definition if_truthy :: "string option \<Rightarrow> (string \<Rightarrow> string outcome) \<Rightarrow> string outcome" where
  "if_truthy x block = (case x of None \<Rightarrow> returns [] | Some s \<Rightarrow> if s \<noteq> [] then block s else returns [])"

definition if_not_null :: "'a option \<Rightarrow> ('a \<Rightarrow> string outcome) \<Rightarrow> string outcome" where
  "if_not_null x block = (case x of None \<Rightarrow> returns [] | Some v \<Rightarrow> block v)"

text \<open>
  The callback of \<^verbatim>\<open>forEach\<close> starts by reading a field of its entry
  (\<^verbatim>\<open>line.quantity\<close>, \<^verbatim>\<open>vatItem.vatType\<close>), which raises a TypeError on
  \<^verbatim>\<open>null\<close>.
\<close>

definition on_entry :: "('a \<Rightarrow> string outcome) \<Rightarrow> 'a option \<Rightarrow> string outcome" where
  "on_entry callback entry =
     (case entry of None \<Rightarrow> Some (Inl TypeError) | Some item \<Rightarrow> callback item)"

definition or_else :: "'a option \<Rightarrow> 'a \<Rightarrow> 'a" where
  "or_else x d = (case x of None \<Rightarrow> d | Some v \<Rightarrow> v)"


definition number_or_string :: "'n number_ops \<Rightarrow> 'n + string \<Rightarrow> string" where
  "number_or_string ops v = (case v of Inl n \<Rightarrow> num_toString ops n | Inr s \<Rightarrow> s)"

section \<open>The line item of both formatters\<close>

text \<open>
  Both formatters build the same texts for a line:
  \<^verbatim>\<open>
  const leftText = `${line.quantity}  ${line.uom ?? ""}  x ${Number(line.price).toFixed(2)}L`;
  const rightText = `${Number(line.fullPrice).toFixed(2)}L`;
  const afterDiscount = (line.fullPrice ?? 0) - line.discountAmount;
  const rightDiscount = " -" + line.discountAmount.toString() + "L " + afterDiscount.toString() + "L";
  \<close>
\<close>

definition leftText :: "'n number_ops \<Rightarrow> 'n line_item \<Rightarrow> 'n \<Rightarrow> 'n \<Rightarrow> string" where
  "leftText ops line q p =
     num_toString ops q @ ''  '' @ or_else (uom line) [] @ ''  x '' @ num_toFixed2 ops p @ ''L''"

definition rightText :: "'n number_ops \<Rightarrow> 'n \<Rightarrow> string" where
  "rightText ops fp = num_toFixed2 ops fp @ ''L''"

definition afterDiscount :: "'n number_ops \<Rightarrow> 'n line_item \<Rightarrow> 'n \<Rightarrow> 'n" where
  "afterDiscount ops line d = num_sub ops (or_else (fullPrice line) (num_zero ops)) d"

definition rightDiscount :: "'n number_ops \<Rightarrow> 'n line_item \<Rightarrow> 'n \<Rightarrow> string" where
  "rightDiscount ops line d =
     '' -'' @ num_toString ops d @ ''L '' @ num_toString ops (afterDiscount ops line d) @ ''L''"

section \<open>The width-aware formatter (\<^verbatim>\<open>formatInvoice(invoice, printerWidth?)\<close>)\<close>

text \<open>The callback of \<^verbatim>\<open>invoice.lines.forEach\<close>.\<close>

definition formatLine :: "'n number_ops \<Rightarrow> int \<Rightarrow> 'n line_item \<Rightarrow> string outcome" where
  "formatLine ops width line =
     (case (quantity line, price line) of
        (Some q, Some p) \<Rightarrow>
          sequence
            [ (case fullPrice line of
                 Some fp \<Rightarrow>
                   line_of (of_option (leftRightTextWrapped (leftText ops line q p) (rightText ops fp) width))
               | None \<Rightarrow> line_of (of_option (wrapText (leftText ops line q p) width))),
              (case discountAmount line of
                 Some d \<Rightarrow>
                   (let leftDiscount = or_else (productName line) []
                    in line_of (of_option (leftRightTextWrapped leftDiscount (rightDiscount ops line d) width)))
               | None \<Rightarrow>
                   (let leftProd = or_else (productName line) []
                    in line_of (of_option (leftRightTextWrapped leftProd [] width)))) ]
      | _ \<Rightarrow> returns [])"

text \<open>
  The same callback on every number as width; \<open>formatLine\<close> is the callback on a whole
  number of columns.
\<close>

definition formatLine_num :: "'n number_ops \<Rightarrow> number \<Rightarrow> 'n line_item \<Rightarrow> string outcome" where
  "formatLine_num ops width line =
     (case (quantity line, price line) of
        (Some q, Some p) \<Rightarrow>
          sequence
            [ (case fullPrice line of
                 Some fp \<Rightarrow>
                   line_of (leftRightTextWrapped_num (leftText ops line q p) (rightText ops fp) width)
               | None \<Rightarrow> line_of (of_option (wrapText_num (leftText ops line q p) width))),
              (case discountAmount line of
                 Some d \<Rightarrow>
                   (let leftDiscount = or_else (productName line) []
                    in line_of (leftRightTextWrapped_num leftDiscount (rightDiscount ops line d) width))
               | None \<Rightarrow>
                   (let leftProd = or_else (productName line) []
                    in line_of (leftRightTextWrapped_num leftProd [] width))) ]
      | _ \<Rightarrow> returns [])"

text \<open>The callback of \<^verbatim>\<open>invoice.vat.forEach\<close>.\<close>

definition formatVat :: "'n number_ops \<Rightarrow> number \<Rightarrow> 'n vat_item \<Rightarrow> string outcome" where
  "formatVat ops width vatItem =
     (case (vatType vatItem, amount vatItem) of
        (Some t, Some a) \<Rightarrow>
          line_of (leftRightTextWrapped_num (''TVSH '' @ t) (num_toString ops a @ ''L'') width)
      | _ \<Rightarrow> returns [])"

text \<open>
  The argument of \<^verbatim>\<open>centerWrap\<close> in the customer block:
  \<^verbatim>\<open>(invoice.CustomerName || "") + (invoice.CustomerTin ? "\n" + invoice.CustomerTin : "") + ...\<close>
\<close>

definition or_empty :: "string option \<Rightarrow> string" where
  "or_empty x = (case x of None \<Rightarrow> [] | Some s \<Rightarrow> s)"

definition on_new_line :: "string option \<Rightarrow> string" where
  "on_new_line x = (case x of None \<Rightarrow> [] | Some s \<Rightarrow> if s \<noteq> [] then [newline] @ s else [])"

definition customerText :: "'n invoice \<Rightarrow> string" where
  "customerText doc =
     or_empty (CustomerName doc) @ on_new_line (CustomerTin doc)
     @ on_new_line (CustomerContact doc) @ on_new_line (CustomerAddress doc)"

text \<open>
  The body of \<^verbatim>\<open>formatInvoice\<close> after its guard, one entry for each
  \<^verbatim>\<open>commands += ...\<close> of the source, in its order.
\<close>

definition formatInvoice_body :: "'n number_ops \<Rightarrow> 'n invoice \<Rightarrow> number \<Rightarrow> string outcome" where
  "formatInvoice_body ops doc width =
     sequence
       [ returns centerText,
         if_truthy (header doc) (\<lambda>v. line_of (of_option (wrapText_num v width))),
         if_truthy (tin doc) (\<lambda>v. line_of (of_option (wrapText_num v width))),
         if_truthy (address doc) (\<lambda>v. line_of (of_option (wrapText_num v width))),
         if_truthy (invoiceType doc)
           (\<lambda>v. returns (boldText @ setTextSize 1 @ v @ [newline] @ reset)),
         returns reset,
         if_not_null (invNumber doc)
           (\<lambda>v. line_of (of_option (wrapText_num (''Nr. Fatures: '' @ number_or_string ops v) width))),
         if_not_null (fiscString doc) (\<lambda>v. line_of (of_option (wrapText_num v width))),
         if_not_null (buCode doc)
           (\<lambda>v. line_of (of_option (wrapText_num (''Njesia e Biznesit: '' @ v) width))),
         if_not_null (opCode doc)
           (\<lambda>v. line_of (of_option (wrapText_num (''Kodi Operatorit: '' @ v) width))),
         if_not_null (Date doc) (\<lambda>v. line_of (of_option (wrapText_num (''Data: '' @ v) width))),
         if_not_null (FiscDateRange doc)
           (\<lambda>v. line_of (of_option (wrapText_num (''Periudha e faturimit: '' @ v) width))),
         if_not_null (TaxPointDate doc)
           (\<lambda>v. line_of (of_option (wrapText_num (''Tax point date: '' @ v) width))),
         of_sum (dottedLineLocal width),
         if_not_null (lines doc)
           (\<lambda>ls. if length ls > 0
                 then sequence [ sequence (map (on_entry (formatLine_num ops width)) ls),
                                 of_sum (dottedLineLocal width) ]
                 else returns []),
         if_not_null (totalPriceNoVat doc)
           (\<lambda>v. line_of (leftRightTextWrapped_num ''SHUMA PA TVSH'' (num_toString ops v @ ''L'') width)),
         if_not_null (totalDiscount doc)
           (\<lambda>v. line_of (leftRightTextWrapped_num ''ZBRITJA TOTALE'' (num_toString ops v @ ''L'') width)),
         if_not_null (vat doc)
           (\<lambda>vs. if length vs > 0 then sequence (map (on_entry (formatVat ops width)) vs) else returns []),
         if_not_null (totalPrice doc)
           (\<lambda>v. sequence
                  [ returns boldText,
                    line_of (leftRightTextWrapped_num ''SHUMA Leke'' (num_toString ops v @ ''L'') width),
                    returns reset ]),
         returns reset,
         line_of (centerWrap (customerText doc) width),
         returns reset,
         returns (addBreaks 1),
         if_truthy (qrCode doc)
           (\<lambda>v. let qrSize = or_else (qrSize doc) 7 in returns (printQRCode v (Some qrSize))),
         if_truthy (IIC doc) (\<lambda>v. line_of (centerWrap (''IIC:'' @ v) width)),
         if_truthy (FIC doc) (\<lambda>v. line_of (centerWrap (''FIC:'' @ v) width)),
         if_truthy (EIC doc) (\<lambda>v. line_of (centerWrap (''EIC:'' @ v) width)),
         if_truthy (Footer doc) (\<lambda>v. line_of (centerWrap v width)),
         returns (addBreaks 4) ]"

text \<open>
  \<^verbatim>\<open>
  export function formatInvoice(invoice: Invoice, printerWidth?: number): string {
    if (!invoice || typeof invoice !== 'object') {
      console.error("Invalid invoice data received.");
      return "";
    }
    const width = printerWidth || 48;
    ...
  \<close>
  The argument \<open>printerWidth\<close> is \<open>printerWidth_arg\<close>, \<open>None\<close> when it is absent; the widths \<open>0\<close> and NaN are falsy and give 48.
  Every other number is taken as it is.
\<close>

definition formatInvoice :: "'n number_ops \<Rightarrow> 'n js_value \<Rightarrow> number option \<Rightarrow> string outcome" where
  "formatInvoice ops invoice printerWidth_arg =
     (if \<not> truthy ops invoice \<or> typeof invoice \<noteq> ''object'' then returns []
      else case invoice of
             Object doc \<Rightarrow>
               (let width = (case printerWidth_arg of
                               None \<Rightarrow> whole 48
                             | Some w \<Rightarrow> if falsy_number w then whole 48 else w)
                in formatInvoice_body ops doc width)
           | _ \<Rightarrow> returns [])"

text \<open>Only an \<open>Object\<close> passes the guard, so the last case is never taken.\<close>

section \<open>The earlier formatter (\<^verbatim>\<open>invoiceFormatter.ts\<close>, \<^verbatim>\<open>formatInvoice(invoice)\<close>)\<close>

text \<open>
  It prints on 48 columns and does not wrap. In its last branch
  \<^verbatim>\<open>line.fullPrice + "\n"\<close> prints a \<open>fullPrice\<close> that the object does not have as
  the text \<^verbatim>\<open>undefined\<close>. The record has one value, \<open>None\<close>, for a field that is
  missing and for a field that is \<^verbatim>\<open>null\<close>, which this branch prints as
  \<^verbatim>\<open>null\<close>: the text of this one line is the one of the missing field.
\<close>

definition formatLine_v1 :: "'n number_ops \<Rightarrow> 'n line_item \<Rightarrow> string outcome" where
  "formatLine_v1 ops line =
     (case (quantity line, price line) of
        (Some q, Some p) \<Rightarrow>
          sequence
            [ (case fullPrice line of
                 Some fp \<Rightarrow> line_of (of_sum (leftRightText (leftText ops line q p) (rightText ops fp) None))
               | None \<Rightarrow> returns (leftText ops line q p @ [newline])),
              (case discountAmount line of
                 Some d \<Rightarrow>
                   line_of (of_sum (leftRightText (or_else (productName line) []) (rightDiscount ops line d) None))
               | None \<Rightarrow>
                   returns (rightAlignText
                            @ (case fullPrice line of None \<Rightarrow> ''undefined'' | Some fp \<Rightarrow> num_toString ops fp)
                            @ [newline])) ]
      | _ \<Rightarrow> returns [])"




section \<open>Request dispatch (the \<^verbatim>\<open>data\<close> handlers of the TCP server in \<^verbatim>\<open>App.tsx\<close>)\<close>

abbreviation CRLF :: string where
  "CRLF \<equiv> [CHR 0x0D, CHR 0x0A]"

text \<open>
  \<^verbatim>\<open>s.trim()\<close> removes white space and line terminators at both ends; among the
  code units below 256 these are the codes 9 to 13, 32 and 160.
\<close>

definition is_white :: "char \<Rightarrow> bool" where
  "is_white c = (of_char c \<in> {9, 10, 11, 12, 13, 32, 160 :: nat})"

definition trim :: "string \<Rightarrow> string" where
  "trim s = rev (dropWhile is_white (rev (dropWhile is_white s)))"

text \<open>\<^verbatim>\<open>s.indexOf(d)\<close>: the first position where \<open>d\<close> occurs in \<open>s\<close>, or \<open>-1\<close>.\<close>

fun indexOf :: "string \<Rightarrow> string \<Rightarrow> int" where
  "indexOf [] d = (if d = [] then 0 else -1)"
| "indexOf (c # cs) d =
     (if prefix d (c # cs) then 0
      else (let i = indexOf cs d in if i < 0 then -1 else i + 1))"

text \<open>\<^verbatim>\<open>s.slice(a)\<close> for an index \<open>a \<ge> 0\<close>, and \<^verbatim>\<open>s.startsWith(p)\<close>.\<close>

definition slice_from :: "string \<Rightarrow> int \<Rightarrow> string" where
  "slice_from s a = drop (nat a) s"


section \<open>Printing (\<^verbatim>\<open>printInvoice\<close> in \<^verbatim>\<open>App.tsx\<close>)\<close>

text \<open>
  What \<^verbatim>\<open>printInvoice\<close> reads from the component: whether a printer is connected
  (the guard on \<^verbatim>\<open>connectedDeviceRef.current\<close>, in the later variant also on
  \<^verbatim>\<open>currentCandidateRef.current\<close>), the width setting as
  \<^verbatim>\<open>parseInt(printerWidthRef.current, 10)\<close> reads it (\<open>None\<close> is NaN), and the
  write to the device, which gives the error it fails with, if any (the later variant
  bounds the write by a timer of five seconds, so it comes back either way).
\<close>

record env =
  connected :: bool
  settingWidth :: "int option"
  writeToDevice :: "string \<Rightarrow> error option"

text \<open>\<^verbatim>\<open>parseInt(printerWidthRef.current, 10) || 48\<close>\<close>

definition configuredWidth :: "env \<Rightarrow> int" where
  "configuredWidth e = (case settingWidth e of None \<Rightarrow> 48 | Some i \<Rightarrow> if i = 0 then 48 else i)"



text \<open>
  The first variant (\<^verbatim>\<open>App.tsx\<close> 174-195) takes the width from the setting alone,
  catches every error without throwing it again, and its caller does not wait for the
  write: the call comes back unless \<^verbatim>\<open>formatInvoice\<close> runs forever.
  \<^verbatim>\<open>
    try {
      const width = parseInt(printerWidthRef.current, 10) || 48;
      const commands = formatInvoice(invoice, width);
      const encodedCommands = Buffer.from(commands, 'latin1');
      await RNBluetoothClassic.writeToDevice(connectedDeviceRef.current.address, encodedCommands);
    } catch (error) {
      disconnectFromDevice();
      Alert.alert("Printer Disconnected", ...);
    }
  \<close>
\<close>

definition printInvoice_v1 :: "'n number_ops \<Rightarrow> env \<Rightarrow> 'n js_value \<Rightarrow> unit outcome" where
  "printInvoice_v1 ops e invoice =
     (if \<not> connected e then returns ()
      else case formatInvoice ops invoice (Some (whole (configuredWidth e))) of
             None \<Rightarrow> None
           | Some r \<Rightarrow> returns ())"

section \<open>The handlers\<close>




definition delimiter :: string where
  "delimiter = CRLF @ CRLF"










definition printed_v1 ::
  "(string \<Rightarrow> error + 'n js_value) \<Rightarrow> 'n number_ops \<Rightarrow> env \<Rightarrow> string \<Rightarrow> unit option" where
  "printed_v1 parse ops e requestStr =
     (let bodyIndex = indexOf requestStr delimiter
      in if bodyIndex \<ge> 0 then
           (let body = trim (slice_from requestStr (bodyIndex + int (length delimiter)))
            in if body \<noteq> [] then
                 (case parse body of
                    Inl err \<Rightarrow> Some ()
                  | Inr invoice \<Rightarrow> map_option (\<lambda>r. ()) (printInvoice_v1 ops e invoice))
               else Some ())
         else Some ())"






section \<open>Sample printers, parser and invoices\<close>





section \<open>Properties of the string primitives\<close>

lemma split_on_not_Nil: "split_on sep s \<noteq> []"
  by (induction s) (auto split: list.splits)

lemma split_on_append_sep:
  "split_on sep (a @ sep # b) = split_on sep a @ split_on sep b"
  by (induction a) (auto split: list.splits simp: split_on_not_Nil)


lemma split_on_length_le: "l \<in> set (split_on sep s) \<Longrightarrow> length l \<le> length s"
  by (induction s arbitrary: l) (force split: if_splits list.splits)+

lemma concat_split_on: "concat (split_on sep s) = filter (\<lambda>c. c \<noteq> sep) s"
  by (induction s) (auto split: list.splits)

lemma substring_0: "0 \<le> w \<Longrightarrow> substring s 0 w = take (nat w) s"
  by (auto simp: substring_def Let_def min_def max_def)

lemma substring_from_eq: "0 \<le> w \<Longrightarrow> substring_from s w = drop (nat w) s"
  by (auto simp: substring_from_def substring_def Let_def min_def max_def)

section \<open>\<^verbatim>\<open>wrapText\<close>: termination, width and content\<close>

text \<open>
  For a width of at least 1 the loop ends: each round removes \<open>width\<close> characters from
  a text that is longer. The result extends the accumulator by lines of at most \<open>width\<close>
  characters that hold the characters of the text in order.
\<close>

lemma wrapText_loop_returns:
  assumes "1 \<le> w"
  shows "\<exists>body. wrapText_loop res tx w = Some (res @ body)
           \<and> (\<forall>l \<in> set (split_on newline body). int (length l) \<le> w)
           \<and> filter (\<lambda>c. c \<noteq> newline) body = filter (\<lambda>c. c \<noteq> newline) tx"
proof (induction "length tx" arbitrary: res tx rule: less_induct)
  case less
  show ?case
  proof (cases "int (length tx) > w")
    case False
    then have "wrapText_loop res tx w = Some (res @ tx)"
      by (subst wrapText_loop.simps) simp
    moreover have "\<forall>l \<in> set (split_on newline tx). int (length l) \<le> w"
      using False split_on_length_le[of _ newline tx] by fastforce
    ultimately show ?thesis by blast
  next
    case True
    let ?hd = "take (nat w) tx" and ?tl = "drop (nat w) tx"
    have "length ?tl < length tx" using True assms by simp
    from less[OF this, of "res @ ?hd @ [newline]"]
    obtain body where b: "wrapText_loop (res @ ?hd @ [newline]) ?tl w = Some ((res @ ?hd @ [newline]) @ body)"
      "\<forall>l \<in> set (split_on newline body). int (length l) \<le> w"
      "filter (\<lambda>c. c \<noteq> newline) body = filter (\<lambda>c. c \<noteq> newline) ?tl" by blast
    have "wrapText_loop res tx w = Some (res @ (?hd @ newline # body))"
      using True assms b(1) by (subst wrapText_loop.simps) (simp add: substring_0 substring_from_eq)
    moreover have "\<forall>l \<in> set (split_on newline (?hd @ newline # body)). int (length l) \<le> w"
      using b(2) split_on_length_le[of _ newline ?hd] assms
      by (fastforce simp: split_on_append_sep)
    moreover have "filter (\<lambda>c. c \<noteq> newline) (?hd @ newline # body) = filter (\<lambda>c. c \<noteq> newline) tx"
    proof -
      have "filter (\<lambda>c. c \<noteq> newline) (?hd @ newline # body)
            = filter (\<lambda>c. c \<noteq> newline) ?hd @ filter (\<lambda>c. c \<noteq> newline) ?tl"
        using b(3) by simp
      also have "\<dots> = filter (\<lambda>c. c \<noteq> newline) (?hd @ ?tl)"
        by (simp only: filter_append)
      finally show ?thesis by simp
    qed
    ultimately show ?thesis by blast
  qed
qed

lemma wrapText_returns:
  assumes "1 \<le> w"
  shows "\<exists>r. wrapText tx w = Some r
           \<and> (\<forall>l \<in> set (split_on newline r). int (length l) \<le> w)
           \<and> filter (\<lambda>c. c \<noteq> newline) r = filter (\<lambda>c. c \<noteq> newline) tx"
  using wrapText_loop_returns[OF assms, of "[]" tx] by (simp add: wrapText_def)


text \<open>
  C1. For every width from 8 to 80 and every text longer than the width, \<^verbatim>\<open>wrapText\<close>
  returns, and no piece of its result between line breaks is longer than the width.
\<close>

theorem wrapText_width_respect:
  assumes "8 \<le> width" and "width \<le> 80" and "int (length tx) > width"
  shows "\<exists>result. wrapText tx width = Some result
           \<and> (\<forall>line \<in> set (split_on newline result). int (length line) \<le> width)"
proof -
  from assms(1) have "1 \<le> width" by simp
  from wrapText_returns[OF this, of tx] show ?thesis by blast
qed

theorem wrapText_width_respect_witness:
  "(8::int) \<le> 8 \<and> (8::int) \<le> 80 \<and> int (length ''abcdefghijklmnopqrst'') > 8
   \<and> (\<exists>result. wrapText ''abcdefghijklmnopqrst'' 8 = Some result
         \<and> (\<forall>line \<in> set (split_on newline result). int (length line) \<le> 8))"
  using wrapText_width_respect[of 8 "''abcdefghijklmnopqrst''"] by simp

text \<open>
  C10. For every text without a line break and every width of at least 1,
  \<^verbatim>\<open>wrapText\<close> returns, and the pieces of its result between line breaks, put together
  in order, are the text: no character is lost, repeated or moved.
\<close>

theorem wrapText_keeps_text:
  assumes "newline \<notin> set tx" and "1 \<le> width"
  shows "\<exists>result. wrapText tx width = Some result
           \<and> concat (split_on newline result) = tx"
proof -
  from wrapText_returns[OF assms(2), of tx] obtain r where
    r: "wrapText tx width = Some r"
       "filter (\<lambda>c. c \<noteq> newline) r = filter (\<lambda>c. c \<noteq> newline) tx" by blast
  have "filter (\<lambda>c. c \<noteq> newline) tx = tx"
    using assms(1) by (auto simp: filter_id_conv)
  with r show ?thesis by (simp add: concat_split_on)
qed

theorem wrapText_keeps_text_witness:
  "newline \<notin> set ''abcdefghij'' \<and> (1::int) \<le> 3
   \<and> (\<exists>result. wrapText ''abcdefghij'' 3 = Some result
         \<and> concat (split_on newline result) = ''abcdefghij'')"
  using wrapText_keeps_text[of "''abcdefghij''" 3] by simp

section \<open>The QR code command\<close>













text \<open>
  C4. For every payload, \<^verbatim>\<open>printQRCode(data, 20)\<close> is the byte string of
  \<^verbatim>\<open>printQRCode(data, 8)\<close> and \<^verbatim>\<open>printQRCode(data, 0)\<close> is that of
  \<^verbatim>\<open>printQRCode(data, 1)\<close>: the module size is clamped into 1 to 8 before it is
  encoded. Every module size \<open>m\<close> gives the bytes of its clamped value, and the byte
  string of \<^verbatim>\<open>printQRCode(data, m)\<close> holds, after the centring and the model
  commands, the size command whose last byte \<open>b\<close> is the clamped module size
  \<open>max 1 (min m 8)\<close>, a value from 1 to 8.
\<close>

theorem printQRCode_clamps:
  "printQRCode data (Some 20) = printQRCode data (Some 8)
   \<and> printQRCode data (Some 0) = printQRCode data (Some 1)
   \<and> printQRCode data (Some m) = printQRCode data (Some (max 1 (min m 8)))
   \<and> (\<exists>b. sizeCommand (max 1 (min m 8)) = [CHR 0x1D, CHR 0x28, CHR 0x6B, CHR 0x03, CHR 0x00, CHR 0x31, CHR 0x43, b]
          \<and> 1 \<le> (of_char b :: nat) \<and> (of_char b :: nat) \<le> 8
          \<and> (of_char b :: int) = max 1 (min m 8)
          \<and> printQRCode data (Some m) =
              centerOn @ modelCommand
              @ [CHR 0x1D, CHR 0x28, CHR 0x6B, CHR 0x03, CHR 0x00, CHR 0x31, CHR 0x43, b]
              @ errorCommand @ storeCommand data @ printCommand @ centerOff
          \<and> printQRCode data (Some m) ! 19 = b)"
proof -
  let ?b = "fromCharCode (max 1 (min m 8))"
  have v: "(of_char ?b :: int) = max 1 (min m 8)"
    by (simp add: fromCharCode_def of_char_of)
  then have "1 \<le> (of_char ?b :: int)" and "(of_char ?b :: int) \<le> 8"
    by simp_all
  then have r: "1 \<le> (of_char ?b :: nat)" "(of_char ?b :: nat) \<le> 8"
    by (simp_all flip: of_nat_of_char [where ?'a = int])
  have s: "sizeCommand (max 1 (min m 8)) = [CHR 0x1D, CHR 0x28, CHR 0x6B, CHR 0x03, CHR 0x00, CHR 0x31, CHR 0x43, ?b]"
    by (simp add: sizeCommand_def)
  have p: "printQRCode data (Some m) =
             centerOn @ modelCommand
             @ [CHR 0x1D, CHR 0x28, CHR 0x6B, CHR 0x03, CHR 0x00, CHR 0x31, CHR 0x43, ?b]
             @ errorCommand @ storeCommand data @ printCommand @ centerOff"
    by (simp add: printQRCode_def sizeCommand_def Let_def)
  have n: "printQRCode data (Some m) ! 19 = ?b"
    unfolding p by (simp add: centerOn_def modelCommand_def nth_append)
  have e: "printQRCode data (Some 20) = printQRCode data (Some 8)"
    "printQRCode data (Some 0) = printQRCode data (Some 1)"
    "printQRCode data (Some m) = printQRCode data (Some (max 1 (min m 8)))"
    by (simp_all add: printQRCode_def Let_def)
  from e s r v p n show ?thesis by blast
qed


section \<open>\<^verbatim>\<open>wrapText\<close> on a width of zero or less\<close>



section \<open>Left and right text on one line\<close>


lemma repeat_whole:
  "0 \<le> n \<Longrightarrow> int (length s) * n \<le> maxStringLength \<Longrightarrow>
   repeat s (whole n) = Inr (concat (replicate (nat n) s))"
  by (simp add: repeat_def whole_def truncate_towards_zero_def)


lemma repeat_whole_long:
  "0 \<le> n \<Longrightarrow> maxStringLength < int (length s) * n \<Longrightarrow> repeat s (whole n) = Inl RangeError"
  by (simp add: repeat_def whole_def truncate_towards_zero_def)


lemma foldl_later_lines:
  "0 < n \<Longrightarrow>
   foldl (\<lambda>result (index, line).
            if index = 0 then result @ padEnd line lw @ right else result @ [newline] @ line)
         acc (enumerate n ls)
   = acc @ concat (map (\<lambda>line. newline # line) ls)"
  by (induction ls arbitrary: acc n) auto

lemma leftRightTextWrapped_narrow:
  "width - int (length right) \<le> 0 \<Longrightarrow> leftRightTextWrapped left right width = Some (left @ right)"
  by (simp add: leftRightTextWrapped_def Let_def)

lemma leftRightTextWrapped_wide:
  assumes "0 < width - int (length right)"
  shows "\<exists>wrapped first rest.
           wrapText left (width - int (length right)) = Some wrapped
           \<and> (\<forall>line \<in> set (split_on newline wrapped). int (length line) \<le> width - int (length right))
           \<and> split_on newline wrapped = first # rest
           \<and> leftRightTextWrapped left right width =
               Some (padEnd first (width - int (length right)) @ right
                     @ concat (map (\<lambda>line. newline # line) rest))"
proof -
  from assms have "1 \<le> width - int (length right)" by simp
  from wrapText_returns[OF this, of left] obtain wrapped where
    w: "wrapText left (width - int (length right)) = Some wrapped"
       "\<forall>line \<in> set (split_on newline wrapped). int (length line) \<le> width - int (length right)"
    by blast
  obtain first rest where s: "split_on newline wrapped = first # rest"
    using split_on_not_Nil[of newline wrapped] by (cases "split_on newline wrapped") auto
  have "leftRightTextWrapped left right width =
               Some (padEnd first (width - int (length right)) @ right
                     @ concat (map (\<lambda>line. newline # line) rest))"
    using assms w(1) s
    by (simp add: leftRightTextWrapped_def Let_def enumerate_simps foldl_later_lines)
  with w s show ?thesis by blast
qed

lemma leftRightTextWrapped_returns: "\<exists>out. leftRightTextWrapped left right width = Some out"
proof (cases "width - int (length right) \<le> 0")
  case True
  then show ?thesis by (simp add: leftRightTextWrapped_narrow)
next
  case False
  then have "0 < width - int (length right)" by simp
  from leftRightTextWrapped_wide[OF this, of left] show ?thesis by blast
qed











section \<open>Outcomes of the pieces\<close>





lemma sequence_returns_all:
  "sequence rs = Some (Inr s) \<Longrightarrow> \<forall>r \<in> set rs. returns_normally r"
proof (induction rs arbitrary: s)
  case Nil
  then show ?case by simp
next
  case (Cons r rs)
  show ?case
  proof (cases r)
    case None
    with Cons.prems show ?thesis by simp
  next
    case (Some v)
    show ?thesis
    proof (cases v)
      case (Inl e)
      with Some Cons.prems show ?thesis by simp
    next
      case (Inr a)
      with Some Cons.prems obtain t where "sequence rs = Some (Inr t)"
        by (auto split: option.splits sum.splits)
      from Cons.IH[OF this] Some Inr show ?thesis by (simp add: returns_normally_def)
    qed
  qed
qed

lemma leftRightText_returns:
  "\<exists>line. leftRightText left right None = Inr line \<and> prefix left line \<and> suffix right line"
proof (cases "48 - int (length left) - int (length right) > 0")
  case True
  let ?n = "48 - int (length left) - int (length right)"
  have "repeat [space] (whole ?n) = Inr (concat (replicate (nat ?n) [space]))"
    using True by (intro repeat_whole) (simp_all add: maxStringLength_def)
  with True show ?thesis by (simp add: leftRightText_def Let_def suffix_def)
next
  case False
  then show ?thesis by (simp add: leftRightText_def Let_def suffix_def)
qed

lemma sublist_appendI: "sublist x b \<Longrightarrow> sublist x (a @ b @ c)"
proof -
  assume "sublist x b"
  then obtain ps ss where "b = ps @ x @ ss" by (auto simp: sublist_def)
  then have "a @ b @ c = (a @ ps) @ x @ (ss @ c)" by simp
  then show ?thesis unfolding sublist_def by blast
qed

lemma leftRightTextWrapped_holds_right:
  "\<exists>out. leftRightTextWrapped left right width = Some out \<and> sublist right out"
proof (cases "width - int (length right) \<le> 0")
  case True
  then have "leftRightTextWrapped left right width = Some (left @ right)"
    by (rule leftRightTextWrapped_narrow)
  moreover have "sublist right (left @ right)"
    using sublist_appendI[of right right left "[]"] by simp
  ultimately show ?thesis by blast
next
  case False
  then have "0 < width - int (length right)" by simp
  from leftRightTextWrapped_wide[OF this, of left] obtain first rest where
    "leftRightTextWrapped left right width =
       Some (padEnd first (width - int (length right)) @ right
             @ concat (map (\<lambda>line. newline # line) rest))" by blast
  moreover have "sublist right (padEnd first (width - int (length right)) @ right
             @ concat (map (\<lambda>line. newline # line) rest))"
    by (auto simp: sublist_def)
  ultimately show ?thesis by blast
qed

section \<open>The discount of a line item\<close>

text \<open>
  C7. For every line item with quantity, price, fullPrice and discountAmount present,
  the after-discount amount is \<open>fullPrice - discountAmount\<close>, not clamped, and both
  formatters print it as it is: the right text of the discount line is
  \<open>" -" + discountAmount + "L " + (fullPrice - discountAmount) + "L"\<close>, and the
  output of the line item returns and contains that text. On the integers, it is the
  decimal notation of the difference, negative when the discount exceeds the price.
\<close>

theorem discount_rendered:
  assumes "quantity line = Some q" and "price line = Some p"
    and "fullPrice line = Some fp" and "discountAmount line = Some d"
  shows "afterDiscount ops line d = num_sub ops fp d
    \<and> rightDiscount ops line d
        = '' -'' @ num_toString ops d @ ''L '' @ num_toString ops (num_sub ops fp d) @ ''L''
    \<and> formatLine ops width line
        = sequence
            [ line_of (of_option (leftRightTextWrapped (leftText ops line q p) (rightText ops fp) width)),
              line_of (of_option (leftRightTextWrapped (or_else (productName line) [])
                                    (rightDiscount ops line d) width)) ]
    \<and> (\<exists>out. formatLine ops width line = Some (Inr out) \<and> sublist (rightDiscount ops line d) out)
    \<and> formatLine_v1 ops line
        = sequence
            [ line_of (of_sum (leftRightText (leftText ops line q p) (rightText ops fp) None)),
              line_of (of_sum (leftRightText (or_else (productName line) [])
                                 (rightDiscount ops line d) None)) ]
    \<and> (\<exists>out. formatLine_v1 ops line = Some (Inr out)
          \<and> suffix (rightDiscount ops line d @ [newline]) out)
    \<and> num_toString int_ops (num_sub int_ops a b) = show_int (a - b)"
proof -
  have after: "afterDiscount ops line d = num_sub ops fp d"
    using assms by (simp add: afterDiscount_def or_else_def)
  have right: "rightDiscount ops line d
        = '' -'' @ num_toString ops d @ ''L '' @ num_toString ops (num_sub ops fp d) @ ''L''"
    by (simp add: rightDiscount_def after)
  have eq: "formatLine ops width line
        = sequence
            [ line_of (of_option (leftRightTextWrapped (leftText ops line q p) (rightText ops fp) width)),
              line_of (of_option (leftRightTextWrapped (or_else (productName line) [])
                                    (rightDiscount ops line d) width)) ]"
    using assms by (simp add: formatLine_def Let_def)
  have eq1: "formatLine_v1 ops line
        = sequence
            [ line_of (of_sum (leftRightText (leftText ops line q p) (rightText ops fp) None)),
              line_of (of_sum (leftRightText (or_else (productName line) [])
                                 (rightDiscount ops line d) None)) ]"
    using assms by (simp add: formatLine_v1_def)
  obtain o1 where o1: "leftRightTextWrapped (leftText ops line q p) (rightText ops fp) width = Some o1"
    using leftRightTextWrapped_returns by blast
  obtain o2 where o2: "leftRightTextWrapped (or_else (productName line) []) (rightDiscount ops line d) width
                        = Some o2" "sublist (rightDiscount ops line d) o2"
    using leftRightTextWrapped_holds_right by blast
  have "formatLine ops width line = Some (Inr ((o1 @ [newline]) @ (o2 @ [newline])))"
    unfolding eq o1 o2(1) by (simp add: line_of_def of_option_def)
  moreover have "sublist (rightDiscount ops line d) ((o1 @ [newline]) @ (o2 @ [newline]))"
    using sublist_appendI[OF o2(2), of "o1 @ [newline]" "[newline]"] by simp
  ultimately have out: "\<exists>out. formatLine ops width line = Some (Inr out)
                           \<and> sublist (rightDiscount ops line d) out" by blast
  obtain l1 where l1: "leftRightText (leftText ops line q p) (rightText ops fp) None = Inr l1"
    using leftRightText_returns by blast
  obtain l2 where l2: "leftRightText (or_else (productName line) []) (rightDiscount ops line d) None = Inr l2"
    "suffix (rightDiscount ops line d) l2"
    using leftRightText_returns by blast
  have "formatLine_v1 ops line = Some (Inr ((l1 @ [newline]) @ (l2 @ [newline])))"
    unfolding eq1 l1 l2(1) by (simp add: line_of_def of_sum_def)
  moreover have "suffix (rightDiscount ops line d @ [newline]) ((l1 @ [newline]) @ (l2 @ [newline]))"
    using l2(2) by (auto simp: suffix_def)
  ultimately have out1: "\<exists>out. formatLine_v1 ops line = Some (Inr out)
          \<and> suffix (rightDiscount ops line d @ [newline]) out" by blast
  have "num_toString int_ops (num_sub int_ops a b) = show_int (a - b)"
    by (simp add: int_ops_def)
  with after right eq out eq1 out1 show ?thesis by blast
qed

theorem discount_rendered_witness:
  "(quantity \<lparr>productName = Some ''milk'', quantity = Some 1, price = Some 2,
               fullPrice = Some 10, discountAmount = Some 3, uom = Some ''pc''\<rparr> = Some (1::int)
    \<and> price \<lparr>productName = Some ''milk'', quantity = Some 1, price = Some 2,
               fullPrice = Some 10, discountAmount = Some 3, uom = Some ''pc''\<rparr> = Some (2::int)
    \<and> fullPrice \<lparr>productName = Some ''milk'', quantity = Some 1, price = Some 2,
               fullPrice = Some 10, discountAmount = Some 3, uom = Some ''pc''\<rparr> = Some (10::int)
    \<and> discountAmount \<lparr>productName = Some ''milk'', quantity = Some 1, price = Some 2,
               fullPrice = Some 10, discountAmount = Some 3, uom = Some ''pc''\<rparr> = Some (3::int))
   \<and> afterDiscount int_ops \<lparr>productName = Some ''milk'', quantity = Some 1, price = Some 2,
               fullPrice = Some 10, discountAmount = Some 3, uom = Some ''pc''\<rparr> 3 = 7
   \<and> (\<exists>out. formatLine int_ops 48 \<lparr>productName = Some ''milk'', quantity = Some 1, price = Some 2,
               fullPrice = Some 10, discountAmount = Some 3, uom = Some ''pc''\<rparr> = Some (Inr out)
         \<and> sublist '' -3L 7L'' out)
   \<and> (\<exists>out. formatLine_v1 int_ops \<lparr>productName = Some ''milk'', quantity = Some 1, price = Some 2,
               fullPrice = Some 10, discountAmount = Some 3, uom = Some ''pc''\<rparr> = Some (Inr out)
         \<and> suffix ('' -3L 7L'' @ [newline]) out)
   \<and> (\<exists>out. formatLine int_ops 48 \<lparr>productName = Some ''milk'', quantity = Some 1, price = Some 2,
               fullPrice = Some 3, discountAmount = Some 10, uom = Some ''pc''\<rparr> = Some (Inr out)
         \<and> sublist '' -10L -7L'' out)"
proof -
  let ?L = "\<lparr>productName = Some ''milk'', quantity = Some (1::int), price = Some 2,
               fullPrice = Some 10, discountAmount = Some 3, uom = Some ''pc''\<rparr>"
  let ?M = "\<lparr>productName = Some ''milk'', quantity = Some (1::int), price = Some 2,
               fullPrice = Some 3, discountAmount = Some 10, uom = Some ''pc''\<rparr>"
  have r1: "rightDiscount int_ops ?L 3 = '' -3L 7L''"
    by code_simp
  have r2: "rightDiscount int_ops ?M 10 = '' -10L -7L''"
    by code_simp
  have hyps: "quantity ?L = Some 1" "price ?L = Some 2" "fullPrice ?L = Some 10"
    "discountAmount ?L = Some 3"
    by simp_all
  have hyps2: "quantity ?M = Some 1" "price ?M = Some 2" "fullPrice ?M = Some 3"
    "discountAmount ?M = Some 10"
    by simp_all
  from discount_rendered[OF hyps, of int_ops 48]
  have a: "afterDiscount int_ops ?L 3 = num_sub int_ops 10 3"
    and b: "\<exists>out. formatLine int_ops 48 ?L = Some (Inr out) \<and> sublist (rightDiscount int_ops ?L 3) out"
    and c: "\<exists>out. formatLine_v1 int_ops ?L = Some (Inr out)
              \<and> suffix (rightDiscount int_ops ?L 3 @ [newline]) out"
    by blast+
  from discount_rendered[OF hyps2, of int_ops 48]
  have d: "\<exists>out. formatLine int_ops 48 ?M = Some (Inr out) \<and> sublist (rightDiscount int_ops ?M 10) out"
    by blast
  from a have a': "afterDiscount int_ops ?L 3 = 7" by (simp add: int_ops_def)
  show ?thesis
    using hyps a' b[unfolded r1] c[unfolded r1] d[unfolded r2] by blast
qed

text \<open>
  C9. For every line item with quantity, price and discountAmount present and
  fullPrice absent, the missing fullPrice counts as 0: the after-discount amount is
  \<open>0 - discountAmount\<close>, and both formatters print it as it is in the right text of the
  discount line. The earlier formatter always returns that line; the width-aware one
  returns it for every width of at least 1 (the first line of the item is wrapped to
  the width).
\<close>

theorem missing_fullPrice_discount:
  assumes "quantity line = Some q" and "price line = Some p"
    and "fullPrice line = None" and "discountAmount line = Some d"
  shows "afterDiscount ops line d = num_sub ops (num_zero ops) d
    \<and> rightDiscount ops line d
        = '' -'' @ num_toString ops d @ ''L '' @ num_toString ops (num_sub ops (num_zero ops) d) @ ''L''
    \<and> formatLine ops width line
        = sequence
            [ line_of (of_option (wrapText (leftText ops line q p) width)),
              line_of (of_option (leftRightTextWrapped (or_else (productName line) [])
                                    (rightDiscount ops line d) width)) ]
    \<and> (1 \<le> width \<longrightarrow>
         (\<exists>out. formatLine ops width line = Some (Inr out) \<and> sublist (rightDiscount ops line d) out))
    \<and> formatLine_v1 ops line
        = sequence
            [ returns (leftText ops line q p @ [newline]),
              line_of (of_sum (leftRightText (or_else (productName line) [])
                                 (rightDiscount ops line d) None)) ]
    \<and> (\<exists>out. formatLine_v1 ops line = Some (Inr out)
          \<and> suffix (rightDiscount ops line d @ [newline]) out)
    \<and> num_toString int_ops (num_sub int_ops (num_zero int_ops) b) = show_int (- b)"
proof -
  have after: "afterDiscount ops line d = num_sub ops (num_zero ops) d"
    using assms by (simp add: afterDiscount_def or_else_def)
  have right: "rightDiscount ops line d
        = '' -'' @ num_toString ops d @ ''L '' @ num_toString ops (num_sub ops (num_zero ops) d) @ ''L''"
    by (simp add: rightDiscount_def after)
  have eq: "formatLine ops width line
        = sequence
            [ line_of (of_option (wrapText (leftText ops line q p) width)),
              line_of (of_option (leftRightTextWrapped (or_else (productName line) [])
                                    (rightDiscount ops line d) width)) ]"
    using assms by (simp add: formatLine_def Let_def)
  have eq1: "formatLine_v1 ops line
        = sequence
            [ returns (leftText ops line q p @ [newline]),
              line_of (of_sum (leftRightText (or_else (productName line) [])
                                 (rightDiscount ops line d) None)) ]"
    using assms by (simp add: formatLine_v1_def)
  obtain o2 where o2: "leftRightTextWrapped (or_else (productName line) []) (rightDiscount ops line d) width
                        = Some o2" "sublist (rightDiscount ops line d) o2"
    using leftRightTextWrapped_holds_right by blast
  have out: "\<exists>out. formatLine ops width line = Some (Inr out)
                \<and> sublist (rightDiscount ops line d) out" if w: "1 \<le> width"
  proof -
    from wrapText_returns[OF w, of "leftText ops line q p"] obtain o1 where
      o1: "wrapText (leftText ops line q p) width = Some o1" by blast
    have "formatLine ops width line = Some (Inr ((o1 @ [newline]) @ (o2 @ [newline])))"
      unfolding eq o1 o2(1) by (simp add: line_of_def of_option_def)
    moreover have "sublist (rightDiscount ops line d) ((o1 @ [newline]) @ (o2 @ [newline]))"
      using sublist_appendI[OF o2(2), of "o1 @ [newline]" "[newline]"] by simp
    ultimately show ?thesis by blast
  qed
  obtain l2 where l2: "leftRightText (or_else (productName line) []) (rightDiscount ops line d) None = Inr l2"
    "suffix (rightDiscount ops line d) l2"
    using leftRightText_returns by blast
  have "formatLine_v1 ops line
          = Some (Inr ((leftText ops line q p @ [newline]) @ (l2 @ [newline])))"
    unfolding eq1 l2(1) by (simp add: line_of_def of_sum_def returns_def)
  moreover have "suffix (rightDiscount ops line d @ [newline])
                   ((leftText ops line q p @ [newline]) @ (l2 @ [newline]))"
    using l2(2) by (auto simp: suffix_def)
  ultimately have out1: "\<exists>out. formatLine_v1 ops line = Some (Inr out)
          \<and> suffix (rightDiscount ops line d @ [newline]) out" by blast
  have "num_toString int_ops (num_sub int_ops (num_zero int_ops) b) = show_int (- b)"
    by (simp add: int_ops_def)
  with after right eq out eq1 out1 show ?thesis by blast
qed

theorem missing_fullPrice_discount_witness:
  "(quantity \<lparr>productName = Some ''milk'', quantity = Some 1, price = Some 2,
               fullPrice = None, discountAmount = Some 3, uom = Some ''pc''\<rparr> = Some (1::int)
    \<and> price \<lparr>productName = Some ''milk'', quantity = Some 1, price = Some 2,
               fullPrice = None, discountAmount = Some 3, uom = Some ''pc''\<rparr> = Some (2::int)
    \<and> fullPrice \<lparr>productName = Some ''milk'', quantity = Some (1::int), price = Some 2,
               fullPrice = None, discountAmount = Some 3, uom = Some ''pc''\<rparr> = None
    \<and> discountAmount \<lparr>productName = Some ''milk'', quantity = Some 1, price = Some 2,
               fullPrice = None, discountAmount = Some 3, uom = Some ''pc''\<rparr> = Some (3::int)
    \<and> (1::int) \<le> 48)
   \<and> afterDiscount int_ops \<lparr>productName = Some ''milk'', quantity = Some 1, price = Some 2,
               fullPrice = None, discountAmount = Some 3, uom = Some ''pc''\<rparr> 3 = - 3
   \<and> (\<exists>out. formatLine int_ops 48 \<lparr>productName = Some ''milk'', quantity = Some 1, price = Some 2,
               fullPrice = None, discountAmount = Some 3, uom = Some ''pc''\<rparr> = Some (Inr out)
         \<and> sublist '' -3L -3L'' out)
   \<and> (\<exists>out. formatLine_v1 int_ops \<lparr>productName = Some ''milk'', quantity = Some 1, price = Some 2,
               fullPrice = None, discountAmount = Some 3, uom = Some ''pc''\<rparr> = Some (Inr out)
         \<and> suffix ('' -3L -3L'' @ [newline]) out)"
proof -
  let ?L = "\<lparr>productName = Some ''milk'', quantity = Some (1::int), price = Some 2,
               fullPrice = None, discountAmount = Some 3, uom = Some ''pc''\<rparr>"
  have r1: "rightDiscount int_ops ?L 3 = '' -3L -3L''"
    by code_simp
  have hyps: "quantity ?L = Some 1" "price ?L = Some 2" "fullPrice ?L = None"
    "discountAmount ?L = Some 3"
    by simp_all
  have w: "(1::int) \<le> 48" by simp
  from missing_fullPrice_discount[OF hyps, of int_ops 48] w
  have a: "afterDiscount int_ops ?L 3 = num_sub int_ops (num_zero int_ops) 3"
    and b: "\<exists>out. formatLine int_ops 48 ?L = Some (Inr out) \<and> sublist (rightDiscount int_ops ?L 3) out"
    and c: "\<exists>out. formatLine_v1 int_ops ?L = Some (Inr out)
              \<and> suffix (rightDiscount int_ops ?L 3 @ [newline]) out"
    by blast+
  from a have a': "afterDiscount int_ops ?L 3 = - 3" by (simp add: int_ops_def)
  show ?thesis
    using hyps w a' b[unfolded r1] c[unfolded r1] by blast
qed

section \<open>The layout functions on a whole width\<close>















section \<open>The formatters return\<close>





























section \<open>\<^verbatim>\<open>wrapText\<close> on a width that removes nothing\<close>








section \<open>Request dispatch\<close>




lemma length_delimiter: "int (length delimiter) = 4"
  by (simp add: delimiter_def)





















lemma printed_v1_never:
  assumes "0 \<le> indexOf requestStr delimiter"
    and "trim (slice_from requestStr (indexOf requestStr delimiter + 4)) \<noteq> []"
    and "parse (trim (slice_from requestStr (indexOf requestStr delimiter + 4))) = Inr invoice"
    and "printInvoice_v1 ops e invoice = None"
  shows "printed_v1 parse ops e requestStr = None"
  using assms by (simp add: printed_v1_def Let_def length_delimiter)




















end
